theory Spec2Isabelle
  imports Complex_Main "HOL-Library.Monad_Syntax"
begin

section \<open>Extension management panel: widgets and actions\<close>

text \<open>
  A shallow embedding of \<^verbatim>\<open>extensionsWidgets.ts\<close> and of the actions that follow it in
  the same source file. Every class is a view over an extension record and the
  extensions workbench service: a widget's \<^verbatim>\<open>render()\<close> rewrites the children of its
  container, an action's \<^verbatim>\<open>update()\<close> rewrites the fields \<^verbatim>\<open>enabled\<close>, \<^verbatim>\<open>label\<close> and
  \<^verbatim>\<open>class\<close> of the action, and \<^verbatim>\<open>run()\<close> calls the service. Objects are records, the
  methods take the object and return it updated; the calls a \<^verbatim>\<open>run()\<close> makes on its
  collaborators are returned as a list, in the order they are made.
\<close>

subsection \<open>Data model\<close>

text \<open>
  Modelled from the spec: the declarations of \<^verbatim>\<open>IExtension\<close>, \<^verbatim>\<open>ExtensionState\<close>
  (\<^verbatim>\<open>./extensions\<close>) and \<^verbatim>\<open>LocalExtensionType\<close> (\<^verbatim>\<open>extensionManagement\<close>) are imported,
  not defined, by the source. The record has the fields the source reads. The source
  tests the type both with \<^verbatim>\<open>=== LocalExtensionType.System\<close> and with
  \<^verbatim>\<open>!== LocalExtensionType.User\<close>; a record without a type (\<^verbatim>\<open>null\<close>) is \<open>None\<close>.
  \<^verbatim>\<open>installCount\<close> and \<^verbatim>\<open>rating\<close> are compared with \<^verbatim>\<open>null\<close> by the source, so they are
  options. Counts are integers; the widgets say how far integers stand for the doubles
  of the source. A rating is a rational number: the source doubles it, rounds it to an
  integer, halves it and compares it with half-integers, and each of these steps is
  exact on IEEE doubles, so the rational value of a double goes through the same
  computation.
\<close>

datatype LocalExtensionType = System | User

datatype ExtensionState = Installing | Installed | NeedsReload | Disabled | Uninstalled

record IExtension =
  identifier' :: string
  displayName :: string
  state :: ExtensionState
  type :: "LocalExtensionType option"
  outdated :: bool
  installCount :: "int option"
  rating :: "rat option"
  ratingCount :: int

text \<open>\<^verbatim>\<open>interface IOptions { extension?: IExtension; small?: boolean; }\<close>; an absent
  \<^verbatim>\<open>small\<close> is falsy.\<close>

record IOptions =
  extension' :: "IExtension option"
  small :: bool

text \<open>
  Modelled from the spec: the base class \<^verbatim>\<open>Action\<close> (\<^verbatim>\<open>vs/base/common/actions\<close>) is
  imported by the source. An action has an identifier, a label, a class tag and an
  enabled flag, set by \<^verbatim>\<open>super(id, label, cssClass, enabled)\<close>. Some actions pass \<^verbatim>\<open>null\<close>
  as class, which is \<open>None\<close>.
\<close>

record Action =
  id' :: string
  label :: string
  class' :: "string option"
  enabled :: bool

text \<open>The single-extension actions add \<^verbatim>\<open>private _extension: IExtension\<close>; it is
  \<^verbatim>\<open>undefined\<close> (\<open>None\<close>) until the setter is called.\<close>

record ExtensionAction = Action +
  extension :: "IExtension option"

text \<open>
  Modelled from the spec: \<^verbatim>\<open>TPromise\<close> (\<^verbatim>\<open>vs/base/common/winjs.base\<close>) is imported by the
  source; the spec calls it a future-like completion signal. A promise is modelled by
  the state it is observed in: still pending, completed with a value, or failed with an
  error. \<^verbatim>\<open>TPromise.as(v)\<close> is the promise already completed with \<open>v\<close>.
\<close>

datatype JSValue = JSNull | JSUndefined | JSBoolean bool | JSArray "JSValue list" | JSError string

datatype TPromise = Pending | Completed JSValue | Failed JSValue

definition TPromise_as :: "JSValue \<Rightarrow> TPromise" where
  "TPromise_as v = Completed v"

fun settled :: "TPromise \<Rightarrow> bool" where
  "settled Pending = False"
| "settled (Completed v) = True"
| "settled (Failed e) = True"

text \<open>The value and the error a finished promise holds.\<close>

fun promise_value :: "TPromise \<Rightarrow> JSValue" where
  "promise_value Pending = JSUndefined"
| "promise_value (Completed v) = v"
| "promise_value (Failed e) = JSUndefined"

fun promise_error :: "TPromise \<Rightarrow> JSValue" where
  "promise_error Pending = JSUndefined"
| "promise_error (Completed v) = JSUndefined"
| "promise_error (Failed e) = e"

fun is_failed :: "TPromise \<Rightarrow> bool" where
  "is_failed (Failed e) = True"
| "is_failed p = False"

text \<open>
  Modelled from the spec: \<^verbatim>\<open>TPromise.join\<close> is imported, not defined, by the source. The
  spec: the bulk action "completes when all finish, independently of individual
  failures". The joined promise is pending while one of its members is; once all have
  finished it has failed if a member has, with the members' errors, and has completed
  with the members' values otherwise.
\<close>

definition TPromise_join :: "TPromise list \<Rightarrow> TPromise" where
  "TPromise_join ps =
     (if list_ex (\<lambda>p. p = Pending) ps then Pending
      else if list_ex is_failed ps then Failed (JSArray (map promise_error ps))
      else Completed (JSArray (map promise_value ps)))"

text \<open>
  The extensions workbench service, as far as the source uses it: the collection
  \<^verbatim>\<open>local\<close>, the test \<^verbatim>\<open>canInstall(extension)\<close>, and the operations \<^verbatim>\<open>install\<close> and
  \<^verbatim>\<open>uninstall\<close>, each returning a promise. The outcome of an operation belongs to the
  service, so it is a field here. \<^verbatim>\<open>install\<close> is called with one argument by the
  Install and Update actions and with \<^verbatim>\<open>promptToInstallDependencies\<close> by Update All;
  the second argument is \<open>None\<close> when it is not passed. \<^verbatim>\<open>run()\<close> of the Install and
  Update actions passes \<^verbatim>\<open>this.extension\<close> as it is, bound or not.
\<close>

record IExtensionsWorkbenchService =
  local :: "IExtension list"
  canInstall :: "IExtension \<Rightarrow> bool"
  install :: "IExtension option \<Rightarrow> bool option \<Rightarrow> TPromise"
  uninstall :: "IExtension \<Rightarrow> TPromise"

text \<open>The calls a \<^verbatim>\<open>run()\<close> makes on its collaborators.\<close>

datatype Call =
    window_confirm string
  | service_install "IExtension option" "bool option"
  | service_uninstall IExtension
  | messageService_show string

datatype Error = TypeError | Error string

subsection \<open>Labels and classes\<close>

text \<open>\<^verbatim>\<open>localize(key, message, args)\<close> is the message with \<^verbatim>\<open>{0}\<close> replaced by the first
  argument.\<close>

definition InstallAction_InstallLabel :: string where
  "InstallAction_InstallLabel = ''Install''"

definition InstallAction_InstallingLabel :: string where
  "InstallAction_InstallingLabel = ''Installing''"

definition InstallAction_Class :: string where
  "InstallAction_Class = ''extension-action install''"

definition InstallAction_InstallingClass :: string where
  "InstallAction_InstallingClass = ''extension-action install installing''"

definition CombinedInstallAction_NoExtensionClass :: string where
  "CombinedInstallAction_NoExtensionClass = ''extension-action install no-extension''"

definition UpdateAction_EnabledClass :: string where
  "UpdateAction_EnabledClass = ''extension-action update''"

definition UpdateAction_DisabledClass :: string where
  "UpdateAction_DisabledClass = UpdateAction_EnabledClass @ '' disabled''"

definition EnableAction_EnabledClass :: string where
  "EnableAction_EnabledClass = ''extension-action enable''"

definition EnableAction_DisabledClass :: string where
  "EnableAction_DisabledClass = EnableAction_EnabledClass @ '' disabled''"

definition DisableAction_EnabledClass :: string where
  "DisableAction_EnabledClass = ''extension-action disable''"

definition DisableAction_DisabledClass :: string where
  "DisableAction_DisabledClass = DisableAction_EnabledClass @ '' disabled''"

definition ReloadAction_EnabledClass :: string where
  "ReloadAction_EnabledClass = ''extension-action reload''"

definition ReloadAction_DisabledClass :: string where
  "ReloadAction_DisabledClass = ReloadAction_EnabledClass @ '' disabled''"

definition deleteSure :: "string \<Rightarrow> string" where
  "deleteSure name = ''Are you sure you want to uninstall '' @ [CHR 0x27] @ name @ [CHR 0x27] @ ''?''"

definition postUninstallMessage :: "string \<Rightarrow> string" where
  "postUninstallMessage name = name @ '' was successfully uninstalled. Restart to deactivate it.''"

subsection \<open>Single-extension actions\<close>

text \<open>\<^verbatim>\<open>InstallAction\<close>: the constructor calls \<^verbatim>\<open>super\<close> and then \<^verbatim>\<open>update()\<close>.\<close>

definition InstallAction_update :: "IExtensionsWorkbenchService \<Rightarrow> ExtensionAction \<Rightarrow> ExtensionAction" where
  "InstallAction_update svc a =
     (case extension a of
        None \<Rightarrow> a\<lparr>enabled := False, class' := Some InstallAction_Class, label := InstallAction_InstallLabel\<rparr>
      | Some e \<Rightarrow>
          if type e = Some System
          then a\<lparr>enabled := False, class' := Some InstallAction_Class, label := InstallAction_InstallLabel\<rparr>
          else
            (let a1 = a\<lparr>enabled := (canInstall svc e \<and> state e = Uninstalled)\<rparr>
             in if state e = Installing
                then a1\<lparr>label := InstallAction_InstallingLabel, class' := Some InstallAction_InstallingClass\<rparr>
                else a1\<lparr>label := InstallAction_InstallLabel, class' := Some InstallAction_Class\<rparr>))"

definition InstallAction_constructor :: "IExtensionsWorkbenchService \<Rightarrow> ExtensionAction" where
  "InstallAction_constructor svc =
     InstallAction_update svc
       \<lparr>id' = ''extensions.install'', label = InstallAction_InstallLabel,
        class' = Some InstallAction_Class, enabled = False, extension = None\<rparr>"



text \<open>\<^verbatim>\<open>UninstallAction\<close>: \<^verbatim>\<open>update()\<close> writes \<^verbatim>\<open>enabled\<close> only.\<close>

definition UninstallAction_update :: "ExtensionAction \<Rightarrow> ExtensionAction" where
  "UninstallAction_update a =
     (case extension a of
        None \<Rightarrow> a\<lparr>enabled := False\<rparr>
      | Some e \<Rightarrow>
          if type e \<noteq> Some User then a\<lparr>enabled := False\<rparr>
          else a\<lparr>enabled := (state e = Installed \<or> state e = Disabled \<or> state e = NeedsReload)\<rparr>)"

definition UninstallAction_constructor :: ExtensionAction where
  "UninstallAction_constructor =
     UninstallAction_update
       \<lparr>id' = ''extensions.uninstall'', label = ''Uninstall'',
        class' = Some ''extension-action uninstall'', enabled = False, extension = None\<rparr>"

definition UninstallAction_set_extension :: "IExtension option \<Rightarrow> ExtensionAction \<Rightarrow> ExtensionAction" where
  "UninstallAction_set_extension e a = UninstallAction_update (a\<lparr>extension := e\<rparr>)"

text \<open>
  \<^verbatim>\<open>UninstallAction.run()\<close>: \<^verbatim>\<open>this.extension.displayName\<close> is read first, a TypeError when
  no extension is bound. \<open>confirm\<close> is the user's answer to \<^verbatim>\<open>window.confirm\<close>. The
  callback of \<^verbatim>\<open>then\<close> runs when the uninstall has completed; it shows the message
  and returns nothing.
\<close>

definition UninstallAction_run ::
  "IExtensionsWorkbenchService \<Rightarrow> (string \<Rightarrow> bool) \<Rightarrow> ExtensionAction \<Rightarrow> Error + (Call list \<times> TPromise)" where
  "UninstallAction_run svc confirm a =
     (case extension a of
        None \<Rightarrow> Inl TypeError
      | Some e \<Rightarrow>
          if \<not> confirm (deleteSure (displayName e))
          then Inr ([window_confirm (deleteSure (displayName e))], TPromise_as JSNull)
          else
            (case uninstall svc e of
               Completed v \<Rightarrow>
                 Inr ([window_confirm (deleteSure (displayName e)), service_uninstall e,
                       messageService_show (postUninstallMessage (displayName e))],
                      Completed JSUndefined)
             | p \<Rightarrow> Inr ([window_confirm (deleteSure (displayName e)), service_uninstall e], p)))"

text \<open>\<^verbatim>\<open>UpdateAction\<close>: \<^verbatim>\<open>update()\<close> writes \<^verbatim>\<open>enabled\<close> and \<^verbatim>\<open>class\<close>.\<close>

definition UpdateAction_update :: "IExtensionsWorkbenchService \<Rightarrow> ExtensionAction \<Rightarrow> ExtensionAction" where
  "UpdateAction_update svc a =
     (case extension a of
        None \<Rightarrow> a\<lparr>enabled := False, class' := Some UpdateAction_DisabledClass\<rparr>
      | Some e \<Rightarrow>
          if type e \<noteq> Some User
          then a\<lparr>enabled := False, class' := Some UpdateAction_DisabledClass\<rparr>
          else
            (let canInstall' = canInstall svc e;
                 isInstalled = (state e = Installed \<or> state e = Disabled);
                 a1 = a\<lparr>enabled := (canInstall' \<and> isInstalled \<and> outdated e)\<rparr>
             in a1\<lparr>class' := Some (if enabled a1 then UpdateAction_EnabledClass else UpdateAction_DisabledClass)\<rparr>))"

definition UpdateAction_constructor :: "IExtensionsWorkbenchService \<Rightarrow> ExtensionAction" where
  "UpdateAction_constructor svc =
     UpdateAction_update svc
       \<lparr>id' = ''extensions.update'', label = ''Update'',
        class' = Some UpdateAction_DisabledClass, enabled = False, extension = None\<rparr>"

definition UpdateAction_run :: "IExtensionsWorkbenchService \<Rightarrow> ExtensionAction \<Rightarrow> Error + (Call list \<times> TPromise)" where
  "UpdateAction_run svc a = Inr ([service_install (extension a) None], install svc (extension a) None)"

text \<open>\<^verbatim>\<open>EnableAction\<close>, \<^verbatim>\<open>DisableAction\<close> and \<^verbatim>\<open>ReloadAction\<close>.\<close>

definition EnableAction_update :: "ExtensionAction \<Rightarrow> ExtensionAction" where
  "EnableAction_update a =
     (case extension a of
        None \<Rightarrow> a\<lparr>enabled := False, class' := Some EnableAction_DisabledClass\<rparr>
      | Some e \<Rightarrow>
          (let a1 = a\<lparr>enabled := (state e = Disabled)\<rparr>
           in a1\<lparr>class' := Some (if enabled a1 then EnableAction_EnabledClass else EnableAction_DisabledClass)\<rparr>))"


definition DisableAction_update :: "ExtensionAction \<Rightarrow> ExtensionAction" where
  "DisableAction_update a =
     (case extension a of
        None \<Rightarrow> a\<lparr>enabled := False, class' := Some DisableAction_DisabledClass\<rparr>
      | Some e \<Rightarrow>
          (let a1 = a\<lparr>enabled := (state e = Installed)\<rparr>
           in a1\<lparr>class' := Some (if enabled a1 then DisableAction_EnabledClass else DisableAction_DisabledClass)\<rparr>))"


definition ReloadAction_update :: "ExtensionAction \<Rightarrow> ExtensionAction" where
  "ReloadAction_update a =
     (case extension a of
        None \<Rightarrow> a\<lparr>enabled := False, class' := Some ReloadAction_DisabledClass\<rparr>
      | Some e \<Rightarrow>
          (let a1 = a\<lparr>enabled := (state e = NeedsReload)\<rparr>
           in a1\<lparr>class' := Some (if enabled a1 then ReloadAction_EnabledClass else ReloadAction_DisabledClass)\<rparr>))"


subsection \<open>The combined install/uninstall action\<close>

text \<open>The composite is an \<^verbatim>\<open>Action\<close> with a bound extension of its own, the field
  \<open>this\<close>, and owns its two children.\<close>

record CombinedInstallAction =
  this :: ExtensionAction
  installAction :: ExtensionAction
  uninstallAction :: ExtensionAction

definition CombinedInstallAction_update :: "CombinedInstallAction \<Rightarrow> CombinedInstallAction" where
  "CombinedInstallAction_update c =
     (case extension (this c) of
        None \<Rightarrow> c\<lparr>this := (this c)\<lparr>enabled := False, class' := Some CombinedInstallAction_NoExtensionClass\<rparr>\<rparr>
      | Some e \<Rightarrow>
          if type e = Some System
          then c\<lparr>this := (this c)\<lparr>enabled := False, class' := Some CombinedInstallAction_NoExtensionClass\<rparr>\<rparr>
          else if enabled (installAction c)
          then c\<lparr>this := (this c)\<lparr>enabled := True, label := label (installAction c),
                                   class' := class' (installAction c)\<rparr>\<rparr>
          else if enabled (uninstallAction c)
          then c\<lparr>this := (this c)\<lparr>enabled := True, label := label (uninstallAction c),
                                   class' := class' (uninstallAction c)\<rparr>\<rparr>
          else if state e = Installing
          then c\<lparr>this := (this c)\<lparr>enabled := False, label := label (installAction c),
                                   class' := class' (installAction c)\<rparr>\<rparr>
          else c\<lparr>this := (this c)\<lparr>enabled := False, label := label (installAction c),
                                   class' := class' (installAction c)\<rparr>\<rparr>)"





subsection \<open>Update All\<close>

definition UpdateAllAction_outdated :: "IExtensionsWorkbenchService \<Rightarrow> IExtension list" where
  "UpdateAllAction_outdated svc =
     filter (\<lambda>e. canInstall svc e
                 \<and> type e = Some User
                 \<and> (state e = Installed \<or> state e = Disabled)
                 \<and> outdated e)
            (local svc)"

definition UpdateAllAction_update :: "IExtensionsWorkbenchService \<Rightarrow> Action \<Rightarrow> Action" where
  "UpdateAllAction_update svc a = a\<lparr>enabled := (length (UpdateAllAction_outdated svc) > 0)\<rparr>"

definition UpdateAllAction_constructor :: "IExtensionsWorkbenchService \<Rightarrow> Action" where
  "UpdateAllAction_constructor svc =
     UpdateAllAction_update svc
       \<lparr>id' = ''workbench.extensions.action.updateAllExtensions'', label = ''Update All Extensions'',
        class' = Some [], enabled = False\<rparr>"

text \<open>\<^verbatim>\<open>run(promptToInstallDependencies: boolean = true)\<close>: an argument that is not
  passed (\<open>None\<close>) takes the default \<^verbatim>\<open>true\<close>.\<close>

definition default_true :: "bool option \<Rightarrow> bool" where
  "default_true arg = (case arg of None \<Rightarrow> True | Some b \<Rightarrow> b)"

definition UpdateAllAction_run ::
  "IExtensionsWorkbenchService \<Rightarrow> bool option \<Rightarrow> Error + (Call list \<times> TPromise)" where
  "UpdateAllAction_run svc arg =
     (let promptToInstallDependencies = default_true arg
      in Inr (map (\<lambda>e. service_install (Some e) (Some promptToInstallDependencies)) (UpdateAllAction_outdated svc),
              TPromise_join (map (\<lambda>e. install svc (Some e) (Some promptToInstallDependencies))
                                 (UpdateAllAction_outdated svc))))"

subsection \<open>Change Sort\<close>

text \<open>A constructor argument of type \<^verbatim>\<open>string\<close> may be \<^verbatim>\<open>undefined\<close> or \<^verbatim>\<open>null\<close>; the
  constructor tests \<^verbatim>\<open>=== undefined\<close>. \<^verbatim>\<open>Query\<close> (\<^verbatim>\<open>../common/extensionQuery\<close>) is
  imported by the source: \<open>parse\<close> is \<^verbatim>\<open>Query.parse\<close>, a parameter.\<close>

datatype 'a optional = Undefined | Null | Defined 'a

record 'q ChangeSortAction = Action +
  sortBy :: "string optional"
  sortOrder :: "string optional"
  query :: 'q

definition ChangeSortAction_constructor ::
  "(string \<Rightarrow> 'q) \<Rightarrow> string \<Rightarrow> string \<Rightarrow> string optional \<Rightarrow> string optional \<Rightarrow> Error + 'q ChangeSortAction" where
  "ChangeSortAction_constructor parse ident lbl sortBy' sortOrder' =
     (if sortBy' = Undefined \<and> sortOrder' = Undefined then Inl (Error ''bad arguments'')
      else Inr \<lparr>id' = ident, label = lbl, class' = None, enabled = False,
                sortBy = sortBy', sortOrder = sortOrder', query = parse []\<rparr>)"

subsection \<open>Widgets\<close>

text \<open>
  An element made by \<^verbatim>\<open>$(selector)\<close>: the selector it was made from, the classes
  switched on by \<^verbatim>\<open>toggleClass\<close>, its title and its text. A container is the list of its
  children; assigning the empty string to \<^verbatim>\<open>innerHTML\<close> empties it and \<^verbatim>\<open>append\<close> adds a
  child at the end.
\<close>

record Node =
  selector :: string
  toggled :: "string list"
  title :: string
  textContent :: string

definition dollar :: "string \<Rightarrow> Node" where
  "dollar sel = \<lparr>selector = sel, toggled = [], title = [], textContent = []\<rparr>"

definition append' :: "Node list \<Rightarrow> Node \<Rightarrow> Node list" where
  "append' container child = container @ [child]"

text \<open>
  The source computes on doubles. Integers stand for them here, and they do so within
  the safe integers of JavaScript (\<^verbatim>\<open>Number.isSafeInteger\<close>): every safe integer is a
  double, the quotient of a safe integer by a positive one rounds to a double with the
  same integer part, and \<^verbatim>\<open>String\<close> prints a safe integer with all its digits. Beyond
  them the source rounds quotients, drops digits and, from \<open>10^21\<close>, prints an
  exponent; there the operations below return \<open>None\<close>, which is not a failure of the
  source but the end of what this model says about it.
\<close>

definition isSafeInteger :: "int \<Rightarrow> bool" where
  "isSafeInteger n \<longleftrightarrow> \<bar>n\<bar> \<le> 9007199254740991"

text \<open>The decimal numeral of an integer.\<close>

fun digits :: "nat \<Rightarrow> string" where
  "digits n = (if n < 10 then [''0123456789'' ! n] else digits (n div 10) @ [''0123456789'' ! (n mod 10)])"

declare digits.simps [simp del]

definition decimal :: "int \<Rightarrow> string" where
  "decimal n = (if n < 0 then ''-'' @ digits (nat (- n)) else digits (nat n))"

text \<open>\<^verbatim>\<open>String(n)\<close> for a safe integer \<open>n\<close>.\<close>

definition String_int :: "int \<Rightarrow> string option" where
  "String_int n = (if isSafeInteger n then Some (decimal n) else None)"

text \<open>\<^verbatim>\<open>Math.floor(n / d)\<close> for a safe integer \<open>n\<close> and a positive safe integer \<open>d\<close>.\<close>

definition Math_floor_quotient :: "int \<Rightarrow> int \<Rightarrow> int option" where
  "Math_floor_quotient n d = (if isSafeInteger n \<and> 0 < d \<and> isSafeInteger d then Some (n div d) else None)"

text \<open>
  \<^verbatim>\<open>String(q)\<close> for a number \<open>q\<close> that is half a safe integer, which is what the
  ratings widget prints: the integer part, and \<^verbatim>\<open>.5\<close> when \<open>2 * q\<close> is odd.
\<close>

definition String_half :: "rat \<Rightarrow> string option" where
  "String_half q =
     (let n = \<lfloor>q * 2\<rfloor>
      in if of_int n = q * 2 \<and> isSafeInteger n
         then Some (if even n then decimal (n div 2)
                    else (if n < 0 then ''-'' else []) @ digits (nat (\<bar>n\<bar> div 2)) @ ''.5'')
         else None)"

text \<open>\<^verbatim>\<open>Math.round\<close>: the nearest integer, a tie going up.\<close>

definition Math_round :: "rat \<Rightarrow> int" where
  "Math_round x = \<lfloor>x + 1 / 2\<rfloor>"



text \<open>The install-count widget. Its result is \<open>None\<close> where the count is not a safe
  integer.\<close>

definition InstallWidget_render :: "IOptions \<Rightarrow> IExtension option \<Rightarrow> Node list \<Rightarrow> Node list option" where
  "InstallWidget_render options ext container =
     (let container = [] in
      case ext of
        None \<Rightarrow> Some container
      | Some e \<Rightarrow>
          (case installCount e of
             None \<Rightarrow> Some container
           | Some n \<Rightarrow> do {
               installLabel \<leftarrow>
                 (if small options
                  then (if n > 1000000
                        then do { q \<leftarrow> Math_floor_quotient n 1000000; s \<leftarrow> String_int q; Some (Some (s @ ''M'')) }
                        else if n > 1000
                        then do { q \<leftarrow> Math_floor_quotient n 1000; s \<leftarrow> String_int q; Some (Some (s @ ''K'')) }
                        else Some None)
                  else Some None);
               text \<leftarrow> (case installLabel of
                          None \<Rightarrow> String_int n
                        | Some l \<Rightarrow> if l = [] then String_int n else Some l);
               Some (append' (append' container (dollar ''span.octicon.octicon-cloud-download''))
                       ((dollar ''span.count'')\<lparr>textContent := text\<rparr>))
             }))"

text \<open>The loop \<^verbatim>\<open>for (let i = 1; i <= 5; i++)\<close> of the ratings widget.\<close>

function stars :: "rat \<Rightarrow> int \<Rightarrow> Node list \<Rightarrow> Node list" where
  "stars rating' i container =
     (if i \<le> 5
      then stars rating' (i + 1)
             (if rating' \<ge> of_int i then append' container (dollar ''span.full.star'')
              else if rating' \<ge> of_int i - 1 / 2 then append' container (dollar ''span.half.star'')
              else append' container (dollar ''span.empty.star''))
      else container)"
  by pat_completeness auto
termination
  by (relation "measure (\<lambda>(r, i, c). nat (6 - i))") auto

declare stars.simps [simp del]

text \<open>The ratings widget. Its result is \<open>None\<close> where, in small mode, twice the rounded
  rating is not a safe integer.\<close>

definition RatingsWidget_render :: "IOptions \<Rightarrow> IExtension option \<Rightarrow> Node list \<Rightarrow> Node list option" where
  "RatingsWidget_render options ext container =
     (let container = [] in
      case ext of
        None \<Rightarrow> Some container
      | Some e \<Rightarrow>
          (case rating e of
             None \<Rightarrow> Some container
           | Some r \<Rightarrow>
               (let rating' = of_int (Math_round (r * 2)) / 2
                in if small options \<and> ratingCount e = 0 then Some container
                   else if small options
                   then do {
                     text \<leftarrow> String_half rating';
                     Some (append' (append' container (dollar ''span.full.star''))
                             ((dollar ''span.count'')\<lparr>textContent := text\<rparr>))
                   }
                   else Some (stars rating' 1 container))))"

subsection \<open>Derivations over time\<close>





text \<open>A candidate of the bulk update, in the words of the specification: User-type,
  installable, installed or disabled, and outdated.\<close>

definition is_update_candidate :: "IExtensionsWorkbenchService \<Rightarrow> IExtension \<Rightarrow> bool" where
  "is_update_candidate svc e \<longleftrightarrow>
     type e = Some User \<and> canInstall svc e \<and> (state e = Installed \<or> state e = Disabled) \<and> outdated e"

subsection \<open>Example records\<close>

definition example_service :: IExtensionsWorkbenchService where
  "example_service =
     \<lparr>local = [], canInstall = (\<lambda>e. True), install = (\<lambda>e p. Pending), uninstall = (\<lambda>e. Pending)\<rparr>"

definition builtin_extension :: IExtension where
  "builtin_extension =
     \<lparr>identifier' = ''vscode.typescript'', displayName = ''TypeScript'', state = Installed,
      type = Some System, outdated = True, installCount = None, rating = None, ratingCount = 0\<rparr>"

definition user_extension :: IExtension where
  "user_extension =
     \<lparr>identifier' = ''ms.python'', displayName = ''Python'', state = Installed,
      type = Some User, outdated = True, installCount = Some 2500000, rating = Some (43 / 10),
      ratingCount = 12\<rparr>"

definition gallery_extension :: IExtension where
  "gallery_extension =
     \<lparr>identifier' = ''ms.go'', displayName = ''Go'', state = Uninstalled,
      type = None, outdated = False, installCount = Some 15000, rating = None, ratingCount = 0\<rparr>"

definition mixed_service :: IExtensionsWorkbenchService where
  "mixed_service =
     \<lparr>local = [user_extension, builtin_extension,
               user_extension\<lparr>identifier' := ''ms.csharp'', state := Disabled\<rparr>],
      canInstall = (\<lambda>e. True),
      install = (\<lambda>e p. if map_option identifier' e = Some ''ms.python''
                        then Failed (JSError ''offline'') else Completed JSNull),
      uninstall = (\<lambda>e. Pending)\<rparr>"








definition user_accepts :: "string \<Rightarrow> bool" where
  "user_accepts message = True"


definition user_declines :: "string \<Rightarrow> bool" where
  "user_declines message = False"

definition bound_uninstall :: ExtensionAction where
  "bound_uninstall = UninstallAction_set_extension (Some user_extension) UninstallAction_constructor"

definition identity_parse :: "string \<Rightarrow> string" where
  "identity_parse s = s"

section \<open>Properties\<close>

subsection \<open>Update, Install and the unbound actions\<close>

text \<open>
  C1, as the code has it. For every bound extension record, the derivation of the Update
  action sets \<^verbatim>\<open>enabled\<close> to true iff the record is of type User, the service's
  \<^verbatim>\<open>canInstall\<close> returns true for it, its state is Installed or Disabled and its outdated
  flag is true. The claim leaves the type out: \<^verbatim>\<open>update()\<close> returns early, disabled,
  for every record whose type is not User.
\<close>

theorem UpdateAction_enabled_iff:
  "enabled (UpdateAction_update svc (a\<lparr>extension := Some e\<rparr>)) \<longleftrightarrow>
     type e = Some User \<and> canInstall svc e \<and> (state e = Installed \<or> state e = Disabled) \<and> outdated e"
  by (simp add: UpdateAction_update_def Let_def)

theorem UpdateAction_enabled_iff_witness:
  "enabled (UpdateAction_update example_service
             ((UpdateAction_constructor example_service)\<lparr>extension := Some user_extension\<rparr>))"
  using UpdateAction_enabled_iff
    [where svc = example_service and a = "UpdateAction_constructor example_service" and e = user_extension]
  by (simp add: example_service_def user_extension_def)

text \<open>
  C1 as stated fails on a built-in extension: installable, installed and outdated, and
  the Update action is disabled.
\<close>

theorem UpdateAction_enabled_counterexample:
  "canInstall example_service builtin_extension
   \<and> (state builtin_extension = Installed \<or> state builtin_extension = Disabled)
   \<and> outdated builtin_extension
   \<and> \<not> enabled (UpdateAction_update example_service
                   ((UpdateAction_constructor example_service)\<lparr>extension := Some builtin_extension\<rparr>))"
  by (simp add: UpdateAction_update_def example_service_def builtin_extension_def)

text \<open>
  C2, as the code has it. For every bound extension record, the derivation of the
  Install action sets \<^verbatim>\<open>enabled\<close> to true iff the record is not of type System, the
  service's \<^verbatim>\<open>canInstall\<close> returns true for it and its state is Uninstalled. The claim
  leaves the type out: \<^verbatim>\<open>update()\<close> returns early, disabled, for a System record.
\<close>

theorem InstallAction_enabled_iff:
  "enabled (InstallAction_update svc (a\<lparr>extension := Some e\<rparr>)) \<longleftrightarrow>
     type e \<noteq> Some System \<and> canInstall svc e \<and> state e = Uninstalled"
  by (simp add: InstallAction_update_def Let_def)

theorem InstallAction_enabled_iff_witness:
  "enabled (InstallAction_update example_service
             ((InstallAction_constructor example_service)\<lparr>extension := Some gallery_extension\<rparr>))"
  using InstallAction_enabled_iff
    [where svc = example_service and a = "InstallAction_constructor example_service" and e = gallery_extension]
  by (simp add: example_service_def gallery_extension_def)

text \<open>
  C2 as stated fails on a System record in state Uninstalled that the service would
  install: the Install action is disabled.
\<close>

theorem InstallAction_enabled_counterexample:
  "canInstall example_service (builtin_extension\<lparr>state := Uninstalled\<rparr>)
   \<and> state (builtin_extension\<lparr>state := Uninstalled\<rparr>) = Uninstalled
   \<and> \<not> enabled (InstallAction_update example_service
                   ((InstallAction_constructor example_service)
                      \<lparr>extension := Some (builtin_extension\<lparr>state := Uninstalled\<rparr>)\<rparr>))"
  by (simp add: InstallAction_update_def example_service_def builtin_extension_def)

text \<open>
  C10. Whenever no extension record is bound, the derivation of each single-extension
  action (Install, Uninstall, Update, Enable, Disable, Reload) sets \<^verbatim>\<open>enabled\<close> to
  false, whatever the action was before and whatever the service answers.
\<close>

theorem unbound_action_disabled:
  "extension a = None \<Longrightarrow>
     \<not> enabled (InstallAction_update svc a)
   \<and> \<not> enabled (UninstallAction_update a)
   \<and> \<not> enabled (UpdateAction_update svc a)
   \<and> \<not> enabled (EnableAction_update a)
   \<and> \<not> enabled (DisableAction_update a)
   \<and> \<not> enabled (ReloadAction_update a)"
  by (simp add: InstallAction_update_def UninstallAction_update_def UpdateAction_update_def
      EnableAction_update_def DisableAction_update_def ReloadAction_update_def)

text \<open>The hypothesis holds of an action that was enabled a moment ago and is handed
  no record now.\<close>

theorem unbound_action_disabled_witness:
  "extension (\<lparr>id' = ''extensions.update'', label = ''Update'', class' = Some UpdateAction_EnabledClass,
               enabled = True, extension = None\<rparr>) = None
   \<and> \<not> enabled (UpdateAction_update example_service
        \<lparr>id' = ''extensions.update'', label = ''Update'', class' = Some UpdateAction_EnabledClass,
         enabled = True, extension = None\<rparr>)
   \<and> \<not> enabled (InstallAction_update example_service
        \<lparr>id' = ''extensions.update'', label = ''Update'', class' = Some UpdateAction_EnabledClass,
         enabled = True, extension = None\<rparr>)"
  using unbound_action_disabled
    [of "\<lparr>id' = ''extensions.update'', label = ''Update'', class' = Some UpdateAction_EnabledClass,
          enabled = True, extension = None\<rparr>" example_service]
  by simp

subsection \<open>Update All\<close>

lemma UpdateAllAction_outdated_eq:
  "UpdateAllAction_outdated svc = filter (is_update_candidate svc) (local svc)"
  unfolding UpdateAllAction_outdated_def is_update_candidate_def
  by (rule filter_cong) auto

lemma settled_iff: "settled p \<longleftrightarrow> p \<noteq> Pending"
  by (cases p) simp_all

lemma settled_TPromise_join: "settled (TPromise_join ps) \<longleftrightarrow> (\<forall>p \<in> set ps. settled p)"
  by (auto simp add: TPromise_join_def list_ex_iff settled_iff)

lemma count_list_map_inj:
  assumes "inj f"
  shows "count_list (map f xs) (f x) = count_list xs x"
  using assms by (induction xs) (auto dest: injD)

lemma count_list_filter:
  "count_list (filter P xs) x = (if P x then count_list xs x else 0)"
  by (induction xs) auto

text \<open>
  C3. The bulk Update-All action is enabled iff at least one extension of the service's
  local collection is a candidate (User-type, passes \<^verbatim>\<open>canInstall\<close>, in state Installed
  or Disabled, outdated). Running it returns, issues the install requests of the
  candidates in the order of the collection and nothing else, so that every candidate
  is requested as often as it occurs in the collection and no other record is
  requested at all; the promise it returns is settled exactly when the install of
  every candidate is settled, completed or failed.
\<close>

theorem UpdateAllAction_enabled_and_run:
  "(enabled (UpdateAllAction_update svc a) \<longleftrightarrow> (\<exists>e \<in> set (local svc). is_update_candidate svc e))
   \<and> (\<exists>p. UpdateAllAction_run svc arg =
              Inr (map (\<lambda>e. service_install (Some e) (Some (default_true arg)))
                       (filter (is_update_candidate svc) (local svc)), p)
          \<and> (settled p \<longleftrightarrow>
               (\<forall>e \<in> set (local svc). is_update_candidate svc e \<longrightarrow>
                   settled (install svc (Some e) (Some (default_true arg))))))
   \<and> (\<forall>e. count_list (map (\<lambda>e. service_install (Some e) (Some (default_true arg)))
                            (filter (is_update_candidate svc) (local svc)))
                       (service_install (Some e) (Some (default_true arg)))
           = (if is_update_candidate svc e then count_list (local svc) e else 0))"
proof (intro conjI)
  show "enabled (UpdateAllAction_update svc a) \<longleftrightarrow> (\<exists>e \<in> set (local svc). is_update_candidate svc e)"
    by (auto simp add: UpdateAllAction_update_def UpdateAllAction_outdated_eq filter_empty_conv)
next
  show "\<exists>p. UpdateAllAction_run svc arg =
              Inr (map (\<lambda>e. service_install (Some e) (Some (default_true arg)))
                       (filter (is_update_candidate svc) (local svc)), p)
          \<and> (settled p \<longleftrightarrow>
               (\<forall>e \<in> set (local svc). is_update_candidate svc e \<longrightarrow>
                   settled (install svc (Some e) (Some (default_true arg)))))"
    by (auto simp add: UpdateAllAction_run_def UpdateAllAction_outdated_eq Let_def settled_TPromise_join)
next
  have "inj (\<lambda>e. service_install (Some e) (Some (default_true arg)))"
    by (simp add: inj_def)
  from count_list_map_inj [OF this]
  show "\<forall>e. count_list (map (\<lambda>e. service_install (Some e) (Some (default_true arg)))
                            (filter (is_update_candidate svc) (local svc)))
                       (service_install (Some e) (Some (default_true arg)))
           = (if is_update_candidate svc e then count_list (local svc) e else 0)"
    by (simp add: count_list_filter)
qed

text \<open>A collection of two candidates and a built-in extension; one install fails, the
  other completes, and the joined promise is settled.\<close>

theorem UpdateAllAction_enabled_and_run_witness:
  "enabled (UpdateAllAction_update mixed_service (UpdateAllAction_constructor mixed_service))
   \<and> (\<exists>p. UpdateAllAction_run mixed_service None =
            Inr ([service_install (Some user_extension) (Some True),
                  service_install (Some (user_extension\<lparr>identifier' := ''ms.csharp'', state := Disabled\<rparr>))
                    (Some True)], p)
          \<and> settled p)"
  using UpdateAllAction_enabled_and_run [of mixed_service "UpdateAllAction_constructor mixed_service" None]
  by (simp add: mixed_service_def is_update_candidate_def user_extension_def builtin_extension_def
      default_true_def)

subsection \<open>The combined install/uninstall action\<close>

lemma CombinedInstallAction_update_children [simp]:
  "installAction (CombinedInstallAction_update c) = installAction c"
  "uninstallAction (CombinedInstallAction_update c) = uninstallAction c"
  "extension (this (CombinedInstallAction_update c)) = extension (this c)"
  by (simp_all add: CombinedInstallAction_update_def split: option.split)














subsection \<open>Widgets\<close>

lemma stars_step:
  "i \<le> 5 \<Longrightarrow>
   stars q i container =
     stars q (i + 1)
       (container @ [dollar (if of_int i \<le> q then ''span.full.star''
                             else if of_int i - 1 / 2 \<le> q then ''span.half.star''
                             else ''span.empty.star'')])"
  by (subst stars.simps) (simp add: append'_def)

lemma stars_done: "\<not> i \<le> 5 \<Longrightarrow> stars q i container = container"
  by (subst stars.simps) simp

lemma stars_from_1:
  "stars q 1 [] =
     map (\<lambda>i. dollar (if rat_of_int i \<le> q then ''span.full.star''
                       else if rat_of_int i - 1 / 2 \<le> q then ''span.half.star''
                       else ''span.empty.star''))
       [1, 2, 3, 4, 5]"
  by (simp add: stars_step stars_done)

lemma Math_round_43: "Math_round (43 / 10 * 2) = 9"
  unfolding Math_round_def by code_simp

lemma Math_round_43_double: "Math_round (4841369599423283 / 1125899906842624 * 2) = 9"
  unfolding Math_round_def by code_simp

lemma nearest_half: "\<bar>rat_of_int \<lfloor>r * 2 + 1 / 2\<rfloor> / 2 - r\<bar> \<le> 1 / 4"
  by linarith

lemma RatingsWidget_render_large:
  "RatingsWidget_render (options\<lparr>small := False\<rparr>) (Some (e\<lparr>rating := Some r\<rparr>)) container =
     Some (stars (of_int (Math_round (r * 2)) / 2) 1 [])"
  by (simp add: RatingsWidget_render_def)

lemma RatingsWidget_render_null:
  "RatingsWidget_render options (Some (e\<lparr>rating := None\<rparr>)) container = Some []"
  by (simp add: RatingsWidget_render_def)

lemma nine_halves_stars:
  "map (\<lambda>i. dollar (if rat_of_int i \<le> of_int 9 / 2 then ''span.full.star''
                     else if rat_of_int i - 1 / 2 \<le> of_int 9 / 2 then ''span.half.star''
                     else ''span.empty.star'')) [1, 2, 3, 4, 5]
   = [dollar ''span.full.star'', dollar ''span.full.star'', dollar ''span.full.star'',
      dollar ''span.full.star'', dollar ''span.half.star'']"
  by simp

text \<open>
  C5. In non-small mode the ratings widget renders, for every rating \<open>r\<close>, five stars
  after the rating rounded to a multiple of one half, \<open>\<lfloor>2 r + 1/2\<rfloor> / 2\<close>, which is at
  most a quarter away from \<open>r\<close>: star \<open>i\<close> is full when the rounded rating is at least
  \<open>i\<close>, half when it is at least \<open>i - 1/2\<close>, and empty otherwise. A rating of 4.3, the
  number as well as the double nearest to it, \<open>4841369599423283 / 2^50\<close>, is rendered
  as four full stars followed by one half star. When the rating of the bound extension
  is \<^verbatim>\<open>null\<close> the widget renders nothing, in either mode.
\<close>

theorem RatingsWidget_render_stars:
  "RatingsWidget_render (options\<lparr>small := False\<rparr>) (Some (e\<lparr>rating := Some r\<rparr>)) container =
     Some (map (\<lambda>i. dollar (if rat_of_int i \<le> rat_of_int \<lfloor>r * 2 + 1 / 2\<rfloor> / 2
                            then ''span.full.star''
                            else if rat_of_int i - 1 / 2 \<le> rat_of_int \<lfloor>r * 2 + 1 / 2\<rfloor> / 2
                            then ''span.half.star''
                            else ''span.empty.star''))
             [1, 2, 3, 4, 5])
   \<and> \<bar>rat_of_int \<lfloor>r * 2 + 1 / 2\<rfloor> / 2 - r\<bar> \<le> 1 / 4
   \<and> RatingsWidget_render (options\<lparr>small := False\<rparr>) (Some (e\<lparr>rating := Some (43 / 10)\<rparr>)) container =
     Some [dollar ''span.full.star'', dollar ''span.full.star'', dollar ''span.full.star'',
           dollar ''span.full.star'', dollar ''span.half.star'']
   \<and> RatingsWidget_render (options\<lparr>small := False\<rparr>)
        (Some (e\<lparr>rating := Some (4841369599423283 / 1125899906842624)\<rparr>)) container =
     Some [dollar ''span.full.star'', dollar ''span.full.star'', dollar ''span.full.star'',
           dollar ''span.full.star'', dollar ''span.half.star'']
   \<and> RatingsWidget_render options (Some (e\<lparr>rating := None\<rparr>)) container = Some []"
proof (intro conjI)
  show "RatingsWidget_render (options\<lparr>small := False\<rparr>) (Some (e\<lparr>rating := Some r\<rparr>)) container =
     Some (map (\<lambda>i. dollar (if rat_of_int i \<le> rat_of_int \<lfloor>r * 2 + 1 / 2\<rfloor> / 2
                            then ''span.full.star''
                            else if rat_of_int i - 1 / 2 \<le> rat_of_int \<lfloor>r * 2 + 1 / 2\<rfloor> / 2
                            then ''span.half.star''
                            else ''span.empty.star''))
             [1, 2, 3, 4, 5])"
    unfolding RatingsWidget_render_large stars_from_1 Math_round_def by (rule refl)
  show "\<bar>rat_of_int \<lfloor>r * 2 + 1 / 2\<rfloor> / 2 - r\<bar> \<le> 1 / 4"
    by (rule nearest_half)
  show "RatingsWidget_render (options\<lparr>small := False\<rparr>) (Some (e\<lparr>rating := Some (43 / 10)\<rparr>)) container =
     Some [dollar ''span.full.star'', dollar ''span.full.star'', dollar ''span.full.star'',
           dollar ''span.full.star'', dollar ''span.half.star'']"
    unfolding RatingsWidget_render_large stars_from_1 Math_round_43
    by (simp only: nine_halves_stars)
  show "RatingsWidget_render (options\<lparr>small := False\<rparr>)
        (Some (e\<lparr>rating := Some (4841369599423283 / 1125899906842624)\<rparr>)) container =
     Some [dollar ''span.full.star'', dollar ''span.full.star'', dollar ''span.full.star'',
           dollar ''span.full.star'', dollar ''span.half.star'']"
    unfolding RatingsWidget_render_large stars_from_1 Math_round_43_double
    by (simp only: nine_halves_stars)
  show "RatingsWidget_render options (Some (e\<lparr>rating := None\<rparr>)) container = Some []"
    by (rule RatingsWidget_render_null)
qed

text \<open>The user extension of the examples has the rating 4.3, the gallery extension none.\<close>

theorem RatingsWidget_render_stars_witness:
  "RatingsWidget_render \<lparr>extension' = None, small = False\<rparr> (Some user_extension) [] =
     Some [dollar ''span.full.star'', dollar ''span.full.star'', dollar ''span.full.star'',
           dollar ''span.full.star'', dollar ''span.half.star'']
   \<and> RatingsWidget_render \<lparr>extension' = None, small = False\<rparr> (Some gallery_extension) [] = Some []"
proof -
  have u: "user_extension\<lparr>rating := Some (43 / 10)\<rparr> = user_extension"
    and g: "gallery_extension\<lparr>rating := None\<rparr> = gallery_extension"
    and s: "\<lparr>extension' = None, small = False\<rparr>\<lparr>small := False\<rparr> = \<lparr>extension' = None, small = False\<rparr>"
    by (simp_all add: user_extension_def gallery_extension_def)
  note t = RatingsWidget_render_stars
    [where options = "\<lparr>extension' = None, small = False\<rparr>" and container = "[]"]
  from t [where e = user_extension, THEN conjunct2, THEN conjunct2, THEN conjunct1]
    t [where e = gallery_extension, THEN conjunct2, THEN conjunct2, THEN conjunct2, THEN conjunct2]
  show ?thesis unfolding u g s by (rule conjI)
qed

lemma decimal_examples:
  "decimal 2 = ''2''" "decimal 15 = ''15''" "decimal 900 = ''900''"
  by (simp_all add: decimal_def digits.simps)

lemma safe_quotient:
  assumes "isSafeInteger n"
  shows "isSafeInteger (n div 1000000)" and "isSafeInteger (n div 1000)"
  using assms unfolding isSafeInteger_def by linarith+

lemma InstallWidget_small_text:
  assumes "isSafeInteger n"
  shows "InstallWidget_render (options\<lparr>small := True\<rparr>) (Some (e\<lparr>installCount := Some n\<rparr>)) container =
     Some [dollar ''span.octicon.octicon-cloud-download'',
      (dollar ''span.count'')
        \<lparr>textContent := (if n > 1000000 then decimal (n div 1000000) @ ''M''
                          else if n > 1000 then decimal (n div 1000) @ ''K''
                          else decimal n)\<rparr>]"
  using assms safe_quotient [OF assms]
  by (simp add: InstallWidget_render_def append'_def String_int_def Math_floor_quotient_def)
    (simp add: isSafeInteger_def)

text \<open>
  C6. In small mode the install-count widget shows a count of 2,500,000 as \<^verbatim>\<open>2M\<close>, of
  15,000 as \<^verbatim>\<open>15K\<close> and of 900 as \<^verbatim>\<open>900\<close>, after a cloud icon. For every count \<open>n\<close>
  that is a safe integer the text is \<open>n div 1000000\<close> followed by \<^verbatim>\<open>M\<close> when \<open>n\<close> is
  above one million, \<open>n div 1000\<close> followed by \<^verbatim>\<open>K\<close> when it is above one thousand,
  and the number itself otherwise.
\<close>

theorem InstallWidget_render_small:
  "(isSafeInteger n \<longrightarrow>
      InstallWidget_render (options\<lparr>small := True\<rparr>) (Some (e\<lparr>installCount := Some n\<rparr>)) container =
        Some [dollar ''span.octicon.octicon-cloud-download'',
              (dollar ''span.count'')
                \<lparr>textContent := (if n > 1000000 then decimal (n div 1000000) @ ''M''
                                  else if n > 1000 then decimal (n div 1000) @ ''K''
                                  else decimal n)\<rparr>])
   \<and> InstallWidget_render (options\<lparr>small := True\<rparr>) (Some (e\<lparr>installCount := Some 2500000\<rparr>)) container =
     Some [dollar ''span.octicon.octicon-cloud-download'', (dollar ''span.count'')\<lparr>textContent := ''2M''\<rparr>]
   \<and> InstallWidget_render (options\<lparr>small := True\<rparr>) (Some (e\<lparr>installCount := Some 15000\<rparr>)) container =
     Some [dollar ''span.octicon.octicon-cloud-download'', (dollar ''span.count'')\<lparr>textContent := ''15K''\<rparr>]
   \<and> InstallWidget_render (options\<lparr>small := True\<rparr>) (Some (e\<lparr>installCount := Some 900\<rparr>)) container =
     Some [dollar ''span.octicon.octicon-cloud-download'', (dollar ''span.count'')\<lparr>textContent := ''900''\<rparr>]"
proof (intro conjI impI)
  assume "isSafeInteger n"
  then show "InstallWidget_render (options\<lparr>small := True\<rparr>) (Some (e\<lparr>installCount := Some n\<rparr>)) container =
        Some [dollar ''span.octicon.octicon-cloud-download'',
              (dollar ''span.count'')
                \<lparr>textContent := (if n > 1000000 then decimal (n div 1000000) @ ''M''
                                  else if n > 1000 then decimal (n div 1000) @ ''K''
                                  else decimal n)\<rparr>]"
    by (rule InstallWidget_small_text)
next
  have s: "isSafeInteger 2500000" "isSafeInteger 15000" "isSafeInteger 900"
    by (simp_all add: isSafeInteger_def)
  show "InstallWidget_render (options\<lparr>small := True\<rparr>) (Some (e\<lparr>installCount := Some 2500000\<rparr>)) container =
     Some [dollar ''span.octicon.octicon-cloud-download'', (dollar ''span.count'')\<lparr>textContent := ''2M''\<rparr>]"
    unfolding InstallWidget_small_text [OF s(1)] by (simp add: decimal_examples)
  show "InstallWidget_render (options\<lparr>small := True\<rparr>) (Some (e\<lparr>installCount := Some 15000\<rparr>)) container =
     Some [dollar ''span.octicon.octicon-cloud-download'', (dollar ''span.count'')\<lparr>textContent := ''15K''\<rparr>]"
    unfolding InstallWidget_small_text [OF s(2)] by (simp add: decimal_examples)
  show "InstallWidget_render (options\<lparr>small := True\<rparr>) (Some (e\<lparr>installCount := Some 900\<rparr>)) container =
     Some [dollar ''span.octicon.octicon-cloud-download'', (dollar ''span.count'')\<lparr>textContent := ''900''\<rparr>]"
    unfolding InstallWidget_small_text [OF s(3)] by (simp add: decimal_examples)
qed

text \<open>The user extension of the examples has 2,500,000 installs, the gallery extension
  15,000; both are safe integers.\<close>

theorem InstallWidget_render_small_witness:
  "isSafeInteger 2500000
   \<and> InstallWidget_render \<lparr>extension' = None, small = True\<rparr> (Some user_extension) [] =
     Some [dollar ''span.octicon.octicon-cloud-download'', (dollar ''span.count'')\<lparr>textContent := ''2M''\<rparr>]
   \<and> InstallWidget_render \<lparr>extension' = None, small = True\<rparr> (Some gallery_extension) [] =
     Some [dollar ''span.octicon.octicon-cloud-download'', (dollar ''span.count'')\<lparr>textContent := ''15K''\<rparr>]"
proof -
  have u: "user_extension\<lparr>installCount := Some 2500000\<rparr> = user_extension"
    and g: "gallery_extension\<lparr>installCount := Some 15000\<rparr> = gallery_extension"
    and s: "\<lparr>extension' = None, small = True\<rparr>\<lparr>small := True\<rparr> = \<lparr>extension' = None, small = True\<rparr>"
    by (simp_all add: user_extension_def gallery_extension_def)
  have safe: "isSafeInteger 2500000"
    by (simp add: isSafeInteger_def)
  note t = InstallWidget_render_small
    [where options = "\<lparr>extension' = None, small = True\<rparr>" and container = "[]"]
  from t [where e = user_extension and n = 2500000, THEN conjunct1, rule_format, OF safe]
  have general: "InstallWidget_render \<lparr>extension' = None, small = True\<rparr> (Some user_extension) [] =
     Some [dollar ''span.octicon.octicon-cloud-download'', (dollar ''span.count'')\<lparr>textContent := ''2M''\<rparr>]"
    unfolding u s by (simp add: decimal_examples)
  from t [where e = gallery_extension, THEN conjunct2, THEN conjunct2, THEN conjunct1]
  have "InstallWidget_render \<lparr>extension' = None, small = True\<rparr> (Some gallery_extension) [] =
     Some [dollar ''span.octicon.octicon-cloud-download'', (dollar ''span.count'')\<lparr>textContent := ''15K''\<rparr>]"
    unfolding g s .
  with safe general show ?thesis by simp
qed

subsection \<open>Uninstall and Change Sort\<close>

text \<open>
  C7. Running the Uninstall action on a bound extension returns, and the first thing it
  does is to ask the user for confirmation, naming the extension. If the user declines,
  nothing else is called, the service's uninstall in particular, and the promise
  returned is completed with \<^verbatim>\<open>null\<close>; if the user accepts, the next call is the service's
  uninstall. (Without a bound extension \<^verbatim>\<open>run()\<close> fails on reading the display name,
  before anything is asked or called; such an action is disabled.)
\<close>

theorem UninstallAction_run_confirms_first:
  "(extension a = Some e \<longrightarrow>
      (\<exists>calls p. UninstallAction_run svc confirm a =
                    Inr (window_confirm (deleteSure (displayName e)) # calls, p)
         \<and> (\<not> confirm (deleteSure (displayName e)) \<longrightarrow> calls = [] \<and> p = Completed JSNull)
         \<and> (confirm (deleteSure (displayName e)) \<longrightarrow> (\<exists>rest. calls = service_uninstall e # rest))))
   \<and> (extension a = None \<longrightarrow> UninstallAction_run svc confirm a = Inl TypeError)
   \<and> TPromise_as JSNull = Completed JSNull"
proof (intro conjI impI)
  assume "extension a = Some e"
  then show "\<exists>calls p. UninstallAction_run svc confirm a =
                    Inr (window_confirm (deleteSure (displayName e)) # calls, p)
         \<and> (\<not> confirm (deleteSure (displayName e)) \<longrightarrow> calls = [] \<and> p = Completed JSNull)
         \<and> (confirm (deleteSure (displayName e)) \<longrightarrow> (\<exists>rest. calls = service_uninstall e # rest))"
    by (cases "uninstall svc e") (simp_all add: UninstallAction_run_def TPromise_as_def)
next
  assume "extension a = None"
  then show "UninstallAction_run svc confirm a = Inl TypeError"
    by (simp add: UninstallAction_run_def)
next
  show "TPromise_as JSNull = Completed JSNull"
    by (simp add: TPromise_as_def)
qed

text \<open>The user declines, and the user accepts, the uninstall of the user extension.\<close>

theorem UninstallAction_run_confirms_first_witness:
  "extension bound_uninstall = Some user_extension
   \<and> user_declines (deleteSure (displayName user_extension)) = False
   \<and> UninstallAction_run example_service user_declines bound_uninstall
       = Inr ([window_confirm (deleteSure (displayName user_extension))], Completed JSNull)
   \<and> user_accepts (deleteSure (displayName user_extension)) = True
   \<and> (\<exists>rest p. UninstallAction_run example_service user_accepts bound_uninstall
          = Inr (window_confirm (deleteSure (displayName user_extension)) # service_uninstall user_extension # rest, p))"
proof -
  have b: "extension bound_uninstall = Some user_extension"
    by (simp add: bound_uninstall_def UninstallAction_set_extension_def UninstallAction_update_def
        split: option.split)
  from UninstallAction_run_confirms_first [of bound_uninstall user_extension example_service user_declines]
    UninstallAction_run_confirms_first [of bound_uninstall user_extension example_service user_accepts] b
  show ?thesis by (auto simp add: user_declines_def user_accepts_def)
qed

text \<open>
  C8. Constructing a \<^verbatim>\<open>ChangeSortAction\<close> with both \<^verbatim>\<open>sortBy\<close> and \<^verbatim>\<open>sortOrder\<close>
  undefined throws the error \<^verbatim>\<open>bad arguments\<close>; with any arguments of which at least
  one of the two is not undefined (\<^verbatim>\<open>null\<close> included) the constructor returns the
  action, which keeps the two arguments.
\<close>

theorem ChangeSortAction_constructor_throws:
  "(sortBy' = Undefined \<and> sortOrder' = Undefined \<longrightarrow>
      ChangeSortAction_constructor parse ident lbl sortBy' sortOrder' = Inl (Error ''bad arguments''))
   \<and> (sortBy' \<noteq> Undefined \<or> sortOrder' \<noteq> Undefined \<longrightarrow>
      (\<exists>action. ChangeSortAction_constructor parse ident lbl sortBy' sortOrder' = Inr action
         \<and> sortBy action = sortBy' \<and> sortOrder action = sortOrder'))"
  by (auto simp add: ChangeSortAction_constructor_def)

theorem ChangeSortAction_constructor_throws_witness:
  "ChangeSortAction_constructor identity_parse ''sort.name'' ''Sort'' Undefined Undefined
     = Inl (Error ''bad arguments'')
   \<and> (\<exists>action. ChangeSortAction_constructor identity_parse ''sort.name'' ''Sort'' (Defined ''name'') Undefined
                  = Inr action)
   \<and> (\<exists>action. ChangeSortAction_constructor identity_parse ''sort.name'' ''Sort'' Undefined Null
                  = Inr action)"
  using ChangeSortAction_constructor_throws [of Undefined Undefined identity_parse "''sort.name''" "''Sort''"]
    ChangeSortAction_constructor_throws [of "Defined ''name''" Undefined identity_parse "''sort.name''" "''Sort''"]
    ChangeSortAction_constructor_throws [of Undefined Null identity_parse "''sort.name''" "''Sort''"]
  by auto

subsection \<open>Derived state as a function of the bound record\<close>










lemma UninstallAction_update_label [simp]: "label (UninstallAction_update a) = label a"
  by (simp add: UninstallAction_update_def split: option.split)

lemma UninstallAction_update_class [simp]: "class' (UninstallAction_update a) = class' a"
  by (simp add: UninstallAction_update_def split: option.split)

lemma UpdateAction_update_label [simp]: "label (UpdateAction_update svc a) = label a"
  by (simp add: UpdateAction_update_def Let_def split: option.split)

lemma EnableAction_update_label [simp]: "label (EnableAction_update a) = label a"
  by (simp add: EnableAction_update_def Let_def split: option.split)

lemma DisableAction_update_label [simp]: "label (DisableAction_update a) = label a"
  by (simp add: DisableAction_update_def Let_def split: option.split)

lemma ReloadAction_update_label [simp]: "label (ReloadAction_update a) = label a"
  by (simp add: ReloadAction_update_def Let_def split: option.split)

















lemma InstallAction_update_extension [simp]: "extension (InstallAction_update svc a) = extension a"
  by (simp add: InstallAction_update_def Let_def split: option.split)

lemma UninstallAction_update_extension [simp]: "extension (UninstallAction_update a) = extension a"
  by (simp add: UninstallAction_update_def split: option.split)














end
